theory Spec2Isabelle
  imports Complex_Main "HOL-Library.Sublist"
begin

section \<open>JavaScript values the client code relies on\<close>

text \<open>
  The client is TypeScript. A field declared \<open>x?: T\<close> is \<open>T | undefined\<close> and is
  modelled as an \<open>option\<close> (\<open>None\<close> is \<open>undefined\<close>); a field or parameter declared
  \<open>x?: T | null\<close> has three shapes and is modelled by \<open>js_opt\<close>. A field declared
  \<open>T | null\<close> is an \<open>option\<close> whose \<open>None\<close> is \<open>null\<close>.
  Strings are \<open>string\<close>: the code units of the Latin-1 range.
\<close>

datatype 'a js_opt = Undefined | Null | Defined 'a

text \<open>
  Every awaited call either resolves or rejects. A rejection is a thrown value; the stores
  read \<open>error.response?.data?.detail\<close> from it. \<open>AxiosError d\<close> is a rejected HTTP call
  whose response carries the detail \<open>d\<close> (\<open>None\<close> when the response, its data or the
  detail is absent); \<open>TypeError\<close> is the runtime error of reading a property of
  \<open>undefined\<close>. A detail is taken to be a string, as the stores' \<open>error: string | null\<close>
  declares it.
\<close>

datatype js_error = AxiosError "string option" | TypeError

type_synonym 'a outcome = "js_error + 'a"

fun error_detail :: "js_error \<Rightarrow> string option" where
  "error_detail (AxiosError d) = d"
| "error_detail TypeError = None"

text \<open>\<open>error.response?.data?.detail || fallback\<close>: the empty string is falsy.\<close>

definition detail_or :: "js_error \<Rightarrow> string \<Rightarrow> string" where
  "detail_or e fallback =
     (case error_detail e of
        None \<Rightarrow> fallback
      | Some d \<Rightarrow> if d = [] then fallback else d)"

text \<open>\<open>groupId || null\<close>: \<open>undefined\<close>, \<open>null\<close> and the empty string all give \<open>null\<close>.\<close>

fun or_null :: "string js_opt \<Rightarrow> string js_opt" where
  "or_null Undefined = Null"
| "or_null Null = Null"
| "or_null (Defined g) = (if g = [] then Null else Defined g)"

text \<open>A string in a condition (\<open>if (request.chat_id)\<close>): truthy when defined and not empty.\<close>

fun truthy :: "string option \<Rightarrow> bool" where
  "truthy None = False"
| "truthy (Some s) = (s \<noteq> [])"

text \<open>
  \<open>String.prototype.trim\<close> removes white space and line terminators from both ends.
  Of those, the Latin-1 range holds TAB, LF, VT, FF, CR, SPACE and NBSP.
\<close>

definition is_js_whitespace :: "char \<Rightarrow> bool" where
  "is_js_whitespace c =
     (c = CHR 0x09 \<or> c = CHR 0x0A \<or> c = CHR 0x0B \<or> c = CHR 0x0C \<or> c = CHR 0x0D
      \<or> c = CHR 0x20 \<or> c = CHR 0xA0)"

definition trim :: "string \<Rightarrow> string" where
  "trim s = rev (dropWhile is_js_whitespace (rev (dropWhile is_js_whitespace s)))"

text \<open>The decimal digits of a number, as a template literal renders \<open>Date.now()\<close>.\<close>

fun string_of_nat :: "nat \<Rightarrow> string" where
  "string_of_nat n =
     (if n < 10 then [''0123456789'' ! n]
      else string_of_nat (n div 10) @ [''0123456789'' ! (n mod 10)])"

section \<open>Authentication: AuthApi, AuthService and the auth store\<close>

datatype user_role = RoleAdmin | RoleUser

record User =
  user_id :: string
  user_email :: string
  user_name :: string
  user_role :: user_role
  user_created_at :: string
  user_updated_at :: string

text \<open>\<open>localStorage\<close>: a dictionary from keys to strings.\<close>

type_synonym local_storage = "string \<rightharpoonup> string"

definition removeItem :: "string \<Rightarrow> local_storage \<Rightarrow> local_storage" where
  "removeItem k st = st(k := None)"

text \<open>
  \<open>AuthApi.logout\<close> has an empty body: the tokens are stateless, and it resolves
  without calling the backend.
\<close>

definition AuthApi_logout :: "unit outcome" where
  "AuthApi_logout = Inr ()"

text \<open>
  \<open>AuthService.logout\<close>: \<open>try { await this.authApi.logout() } finally
  { localStorage.removeItem('auth_token') }\<close>. The service gets its \<open>authApi\<close> through
  the constructor, so the outcome of the API's logout is a parameter. A \<open>finally\<close> with
  no \<open>catch\<close> runs its block and lets the rejection through.
\<close>

definition AuthService_logout ::
  "unit outcome \<Rightarrow> local_storage \<Rightarrow> local_storage \<times> unit outcome" where
  "AuthService_logout api_logout st = (removeItem ''auth_token'' st, api_logout)"

record AuthState =
  auth_user :: "User option"
  auth_token :: "string option"
  isAuthenticated :: bool
  auth_isLoading :: bool
  auth_error :: "string option"

text \<open>
  The store's \<open>logout\<close>: \<open>try { await authService.logout() } finally
  { set({ user: null, token: null, isAuthenticated: false }) }\<close>.
\<close>

definition authStore_logout ::
  "unit outcome \<Rightarrow> AuthState \<Rightarrow> local_storage
     \<Rightarrow> AuthState \<times> local_storage \<times> unit outcome" where
  "authStore_logout api_logout s st =
     (let (st', r) = AuthService_logout api_logout st
      in (s\<lparr>auth_user := None, auth_token := None, isAuthenticated := False\<rparr>, st', r))"

section \<open>Entities and request shapes\<close>

datatype DocumentStatus = pending | processing | indexed | error

text \<open>
  \<open>Record<string, any>\<close> values (\<open>metadata\<close>) are only passed through by the client;
  they are kept as association lists of rendered values.
\<close>

type_synonym js_record = "(string \<times> string) list"

record Document =
  doc_id :: string
  doc_user_id :: string
  doc_filename :: string
  doc_file_size :: nat
  doc_mime_type :: string
  doc_status :: DocumentStatus
  doc_storage_key :: "string option"
  doc_checksum :: "string option"
  doc_metadata :: "js_record option"
  doc_created_at :: string
  doc_updated_at :: string

text \<open>The browser's \<open>File\<close>: its name, size, MIME type and bytes.\<close>

record File =
  file_name :: string
  file_size :: nat
  file_type :: string
  file_bytes :: string

record UploadFileEntry =
  entry_filename :: string
  entry_file_size :: nat
  entry_content_type :: string

record UploadRequest =
  files :: "UploadFileEntry list"
  upload_group_id :: "string js_opt"



record UploadConfirmRequest =
  confirm_document_id :: string
  confirm_file_size :: nat
  confirm_checksum :: "string option"
  confirm_metadata :: "js_record option"
  confirm_group_id :: "string js_opt"

datatype message_role = MsgUser | MsgAssistant

record ChatMessage =
  msg_id :: string
  msg_session_id :: string
  msg_role :: message_role
  msg_content :: string
  msg_created_at :: string

text \<open>
  \<open>ChatSession.messages\<close> is declared an array, but the store reads it as
  \<open>session.messages || []\<close>: \<open>None\<close> is a session that came without the field.
\<close>

record ChatSession =
  session_id :: string
  session_user_id :: string
  session_title :: "string option"
  session_created_at :: string
  session_updated_at :: string
  session_messages :: "ChatMessage list option"

record ChatQueryRequest =
  query :: string
  chat_id :: "string option"
  use_multi_query :: "bool option"
  use_step_back :: "bool option"
  group_id :: "string js_opt"

record ChatQueryResponse =
  message :: string
  sources :: "string list"
  metadata :: js_record

record SendMessageResponse =
  assistant_message :: ChatMessage
  reply_sources :: "string list"
  reply_metadata :: js_record

text \<open>The object literal \<open>ChatApi.query\<close> posts to \<open>/api/chats/{chat_id}/messages\<close>.\<close>

record SendMessageBody =
  content :: string
  body_use_multi_query :: "bool option"
  body_use_step_back :: "bool option"
  body_group_id :: "string js_opt"

record TokenUsageSummary =
  provider :: string
  today_tokens :: int
  today_requests :: int
  month_tokens :: int
  month_requests :: int
  daily_limit :: "int option"
  monthly_limit :: "int option"
  daily_percentage :: rat
  monthly_percentage :: rat

section \<open>HTTP calls\<close>

text \<open>
  The API classes call \<open>apiClient\<close> (the configured axios instance) or, for the
  presigned upload, plain \<open>axios\<close>. A call is recorded with its method, URL and body; what
  the network answers is a parameter of each operation, so a theorem about an operation
  holds for every backend.
\<close>

datatype http_client = ApiClient | PlainAxios

datatype http_method = GET | POST | PUT | DELETE | PATCH

datatype http_body =
    NoBody
  | UploadRequestBody UploadRequest
  | UploadConfirmBody UploadConfirmRequest
  | FileBody File
  | SendMessageBodyOf SendMessageBody
  | ChatQueryBody ChatQueryRequest
  | TitleBody "string option"

record http_call =
  client :: http_client
  call_method :: http_method
  url :: string
  body :: http_body
  content_type_header :: "string option"

definition api_call :: "http_method \<Rightarrow> string \<Rightarrow> http_body \<Rightarrow> http_call" where
  "api_call m u b =
     \<lparr>client = ApiClient, call_method = m, url = u, body = b, content_type_header = None\<rparr>"

section \<open>Documents: DocumentApi, DocumentService and the document store\<close>




definition DocumentApi_deleteDocument ::
  "unit outcome \<Rightarrow> string \<Rightarrow> http_call \<times> unit outcome" where
  "DocumentApi_deleteDocument response i =
     (api_call DELETE (''/api/documents/'' @ i) NoBody, response)"



definition DocumentService_deleteDocument ::
  "unit outcome \<Rightarrow> string \<Rightarrow> http_call \<times> unit outcome" where
  "DocumentService_deleteDocument response i = DocumentApi_deleteDocument response i"

record DocumentState =
  documents :: "Document list"
  selectedDocument :: "Document option"
  doc_isLoading :: bool
  doc_error :: "string option"
  uploadProgress :: nat

text \<open>
  The store's \<open>deleteDocument\<close>: \<open>set({ isLoading: true, error: null })\<close>, then the
  service call; on success the document is filtered out and the selection is dropped when
  \<open>state.selectedDocument?.id === id\<close>; the \<open>catch\<close> sets \<open>error\<close> and \<open>isLoading\<close> only.
\<close>

definition documentStore_deleteDocument ::
  "unit outcome \<Rightarrow> string \<Rightarrow> DocumentState \<Rightarrow> DocumentState \<times> http_call list" where
  "documentStore_deleteDocument response i s =
     (let s1 = s\<lparr>doc_isLoading := True, doc_error := None\<rparr>;
          (call, r) = DocumentService_deleteDocument response i
      in case r of
           Inr _ \<Rightarrow>
             (s1\<lparr>documents := filter (\<lambda>doc. doc_id doc \<noteq> i) (documents s1),
                 selectedDocument :=
                   (case selectedDocument s1 of
                      None \<Rightarrow> None
                    | Some d \<Rightarrow> if doc_id d = i then None else Some d),
                 doc_isLoading := False\<rparr>, [call])
         | Inl e \<Rightarrow>
             (s1\<lparr>doc_error := Some (detail_or e ''Delete failed''),
                 doc_isLoading := False\<rparr>, [call]))"

section \<open>Chat: ChatApi, ChatService and the chat store\<close>

text \<open>
  \<open>ChatApi.query\<close>. With a truthy \<open>chat_id\<close> it posts the message to the session's
  endpoint and converts the \<open>SendMessageResponse\<close>; otherwise it posts the request
  itself to \<open>/api/rag/query\<close>. The two responses are what each endpoint would answer.
\<close>

definition ChatApi_query ::
  "SendMessageResponse outcome \<Rightarrow> ChatQueryResponse outcome \<Rightarrow> ChatQueryRequest
     \<Rightarrow> http_call \<times> ChatQueryResponse outcome" where
  "ChatApi_query messages_response rag_response request =
     (if truthy (chat_id request) then
        (api_call POST (''/api/chats/'' @ the (chat_id request) @ ''/messages'')
           (SendMessageBodyOf
              \<lparr>content = query request,
               body_use_multi_query = use_multi_query request,
               body_use_step_back = use_step_back request,
               body_group_id = or_null (group_id request)\<rparr>),
         case messages_response of
           Inl e \<Rightarrow> Inl e
         | Inr data \<Rightarrow>
             Inr \<lparr>message = msg_content (assistant_message data),
                  sources = reply_sources data,
                  metadata = reply_metadata data\<rparr>)
      else
        (api_call POST ''/api/rag/query'' (ChatQueryBody request), rag_response))"

definition ChatApi_getSessions ::
  "ChatSession list outcome \<Rightarrow> http_call \<times> ChatSession list outcome" where
  "ChatApi_getSessions response = (api_call GET ''/api/chats/'' NoBody, response)"

definition ChatApi_getSession ::
  "ChatSession outcome \<Rightarrow> string \<Rightarrow> http_call \<times> ChatSession outcome" where
  "ChatApi_getSession response i = (api_call GET (''/api/chats/'' @ i) NoBody, response)"

definition ChatApi_createSession ::
  "ChatSession outcome \<Rightarrow> string option \<Rightarrow> http_call \<times> ChatSession outcome" where
  "ChatApi_createSession response title =
     (api_call POST ''/api/chats/'' (TitleBody title), response)"

definition ChatApi_deleteSession ::
  "unit outcome \<Rightarrow> string \<Rightarrow> http_call \<times> unit outcome" where
  "ChatApi_deleteSession response i = (api_call DELETE (''/api/chats/'' @ i) NoBody, response)"

definition ChatApi_updateSessionTitle ::
  "ChatSession outcome \<Rightarrow> string \<Rightarrow> string \<Rightarrow> http_call \<times> ChatSession outcome" where
  "ChatApi_updateSessionTitle response i title =
     (api_call PATCH (''/api/chats/'' @ i) (TitleBody (Some title)), response)"

text \<open>
  \<open>ChatService.sendMessage\<close> builds the request from its three arguments; the two
  expansion flags are literals of the object it builds.
\<close>

definition ChatService_request ::
  "string \<Rightarrow> string option \<Rightarrow> string js_opt \<Rightarrow> ChatQueryRequest" where
  "ChatService_request q sessionId groupId =
     \<lparr>query = q,
      chat_id = sessionId,
      use_multi_query = Some True,
      use_step_back = Some False,
      group_id = or_null groupId\<rparr>"

definition ChatService_sendMessage ::
  "SendMessageResponse outcome \<Rightarrow> ChatQueryResponse outcome
     \<Rightarrow> string \<Rightarrow> string option \<Rightarrow> string js_opt
     \<Rightarrow> http_call \<times> ChatQueryResponse outcome" where
  "ChatService_sendMessage messages_response rag_response q sessionId groupId =
     ChatApi_query messages_response rag_response (ChatService_request q sessionId groupId)"

text \<open>The other methods of \<open>ChatService\<close> forward to the API.\<close>

definition ChatService_getSessions ::
  "ChatSession list outcome \<Rightarrow> http_call \<times> ChatSession list outcome" where
  "ChatService_getSessions response = ChatApi_getSessions response"

definition ChatService_getSession ::
  "ChatSession outcome \<Rightarrow> string \<Rightarrow> http_call \<times> ChatSession outcome" where
  "ChatService_getSession response i = ChatApi_getSession response i"

definition ChatService_createSession ::
  "ChatSession outcome \<Rightarrow> string option \<Rightarrow> http_call \<times> ChatSession outcome" where
  "ChatService_createSession response title = ChatApi_createSession response title"

definition ChatService_deleteSession ::
  "unit outcome \<Rightarrow> string \<Rightarrow> http_call \<times> unit outcome" where
  "ChatService_deleteSession response i = ChatApi_deleteSession response i"

definition ChatService_updateSessionTitle ::
  "ChatSession outcome \<Rightarrow> string \<Rightarrow> string \<Rightarrow> http_call \<times> ChatSession outcome" where
  "ChatService_updateSessionTitle response i title =
     ChatApi_updateSessionTitle response i title"

record ChatState =
  sessions :: "ChatSession list"
  currentSession :: "ChatSession option"
  messages :: "ChatMessage list"
  chat_isLoading :: bool
  isSending :: bool
  chat_error :: "string option"

text \<open>\<open>session.messages || []\<close>: an array, even an empty one, is truthy.\<close>

definition messages_or_empty :: "ChatSession \<Rightarrow> ChatMessage list" where
  "messages_or_empty session =
     (case session_messages session of None \<Rightarrow> [] | Some ms \<Rightarrow> ms)"

text \<open>
  Each store operation takes the state at its start and what the network answers, and
  returns the state at its end with the calls it made, in order. An operation runs to
  its end before the next one starts.
\<close>

definition chatStore_fetchSessions ::
  "ChatSession list outcome \<Rightarrow> ChatState \<Rightarrow> ChatState \<times> http_call list" where
  "chatStore_fetchSessions response s =
     (let s1 = s\<lparr>chat_isLoading := True, chat_error := None\<rparr>;
          (call, r) = ChatService_getSessions response
      in case r of
           Inr sessions' \<Rightarrow> (s1\<lparr>sessions := sessions', chat_isLoading := False\<rparr>, [call])
         | Inl e \<Rightarrow>
             (s1\<lparr>chat_error := Some (detail_or e ''Failed to fetch sessions''),
                 chat_isLoading := False\<rparr>, [call]))"

definition chatStore_createSession ::
  "ChatSession outcome \<Rightarrow> string option \<Rightarrow> ChatState
     \<Rightarrow> ChatState \<times> http_call list \<times> ChatSession outcome" where
  "chatStore_createSession response title s =
     (let s1 = s\<lparr>chat_isLoading := True, chat_error := None\<rparr>;
          (call, r) = ChatService_createSession response title
      in case r of
           Inr session \<Rightarrow>
             (s1\<lparr>sessions := session # sessions s1,
                 currentSession := Some session,
                 messages := messages_or_empty session,
                 chat_isLoading := False\<rparr>, [call], Inr session)
         | Inl e \<Rightarrow>
             (s1\<lparr>chat_error := Some (detail_or e ''Failed to create session''),
                 chat_isLoading := False\<rparr>, [call], Inl e))"

definition chatStore_selectSession ::
  "ChatSession outcome \<Rightarrow> string \<Rightarrow> ChatState \<Rightarrow> ChatState \<times> http_call list" where
  "chatStore_selectSession response sessionId s =
     (let s1 = s\<lparr>chat_isLoading := True, chat_error := None\<rparr>;
          (call, r) = ChatService_getSession response sessionId
      in case r of
           Inr session \<Rightarrow>
             (s1\<lparr>currentSession := Some session,
                 messages := messages_or_empty session,
                 chat_isLoading := False\<rparr>, [call])
         | Inl e \<Rightarrow>
             (s1\<lparr>chat_error := Some (detail_or e ''Failed to load session''),
                 chat_isLoading := False\<rparr>, [call]))"

definition chatStore_deleteSession ::
  "unit outcome \<Rightarrow> string \<Rightarrow> ChatState \<Rightarrow> ChatState \<times> http_call list" where
  "chatStore_deleteSession response i s =
     (let s1 = s\<lparr>chat_isLoading := True, chat_error := None\<rparr>;
          (call, r) = ChatService_deleteSession response i
      in case r of
           Inr _ \<Rightarrow>
             (let is_current =
                    (case currentSession s1 of None \<Rightarrow> False | Some c \<Rightarrow> session_id c = i)
              in (s1\<lparr>sessions := filter (\<lambda>x. session_id x \<noteq> i) (sessions s1),
                     currentSession := (if is_current then None else currentSession s1),
                     messages := (if is_current then [] else messages s1),
                     chat_isLoading := False\<rparr>, [call]))
         | Inl e \<Rightarrow>
             (s1\<lparr>chat_error := Some (detail_or e ''Failed to delete session''),
                 chat_isLoading := False\<rparr>, [call]))"

definition chatStore_updateSessionTitle ::
  "ChatSession outcome \<Rightarrow> string \<Rightarrow> string \<Rightarrow> ChatState \<Rightarrow> ChatState \<times> http_call list" where
  "chatStore_updateSessionTitle response i title s =
     (let s1 = s\<lparr>chat_isLoading := True, chat_error := None\<rparr>;
          (call, r) = ChatService_updateSessionTitle response i title
      in case r of
           Inr updatedSession \<Rightarrow>
             (s1\<lparr>sessions :=
                   map (\<lambda>x. if session_id x = i then updatedSession else x) (sessions s1),
                 currentSession :=
                   (case currentSession s1 of
                      None \<Rightarrow> None
                    | Some c \<Rightarrow> if session_id c = i then Some updatedSession else Some c),
                 chat_isLoading := False\<rparr>, [call])
         | Inl e \<Rightarrow>
             (s1\<lparr>chat_error := Some (detail_or e ''Failed to update title''),
                 chat_isLoading := False\<rparr>, [call]))"

definition chatStore_setError :: "string option \<Rightarrow> ChatState \<Rightarrow> ChatState" where
  "chatStore_setError e s = s\<lparr>chat_error := e\<rparr>"

text \<open>
  What one \<open>sendMessage\<close> reads from outside the store: the clock when the user message
  and the assistant message are built (\<open>Date.now()\<close> and \<open>toISOString()\<close>), the answers
  of the two query endpoints, and the answers to the two session listings that follow.
\<close>

record send_env =
  now_user :: nat
  iso_user :: string
  messages_response :: "SendMessageResponse outcome"
  rag_response :: "ChatQueryResponse outcome"
  now_assistant :: nat
  iso_assistant :: string
  fetchSessions_response :: "ChatSession list outcome"
  getSessions_response :: "ChatSession list outcome"

text \<open>The \<open>catch\<close> block of \<open>sendMessage\<close>, run on the state the store is in by then.\<close>

definition sendMessage_catch :: "js_error \<Rightarrow> ChatMessage \<Rightarrow> ChatState \<Rightarrow> ChatState" where
  "sendMessage_catch e userMessage s =
     s\<lparr>chat_error := Some (detail_or e ''Failed to send message''),
       isSending := False,
       messages := filter (\<lambda>m. msg_id m \<noteq> msg_id userMessage) (messages s)\<rparr>"

definition userMessage_of :: "send_env \<Rightarrow> string \<Rightarrow> ChatState \<Rightarrow> ChatMessage" where
  "userMessage_of env q s =
     \<lparr>msg_id = ''temp-'' @ string_of_nat (now_user env),
      msg_session_id = (case currentSession s of None \<Rightarrow> [] | Some c \<Rightarrow> session_id c),
      msg_role = MsgUser,
      msg_content = q,
      msg_created_at = iso_user env\<rparr>"

definition assistantMessage_of ::
  "send_env \<Rightarrow> ChatQueryResponse \<Rightarrow> ChatState \<Rightarrow> ChatMessage" where
  "assistantMessage_of env response s =
     \<lparr>msg_id = ''assistant-'' @ string_of_nat (now_assistant env),
      msg_session_id = (case currentSession s of None \<Rightarrow> [] | Some c \<Rightarrow> session_id c),
      msg_role = MsgAssistant,
      msg_content = message response,
      msg_created_at = iso_assistant env\<rparr>"

text \<open>
  The store's \<open>sendMessage\<close>. Everything after the first \<open>set\<close> is inside one \<open>try\<close>:
  the query, the second \<open>set\<close>, \<open>fetchSessions\<close> (which catches its own rejection) and
  the second \<open>getSessions\<close> (whose rejection reaches the \<open>catch\<close> of \<open>sendMessage\<close>).
\<close>

definition chatStore_sendMessage ::
  "send_env \<Rightarrow> string \<Rightarrow> string js_opt \<Rightarrow> ChatState \<Rightarrow> ChatState \<times> http_call list" where
  "chatStore_sendMessage env q groupId s =
     (if trim q = [] then (s, [])
      else
        let current = currentSession s;
            userMessage = userMessage_of env q s;
            s1 = s\<lparr>messages := messages s @ [userMessage], isSending := True,
                   chat_error := None\<rparr>;
            (call, r) =
              ChatService_sendMessage (messages_response env) (rag_response env)
                q (map_option session_id current) groupId
        in case r of
             Inl e \<Rightarrow> (sendMessage_catch e userMessage s1, [call])
           | Inr response \<Rightarrow>
               (let assistantMessage = assistantMessage_of env response s;
                    s2 = s1\<lparr>messages := messages s1 @ [assistantMessage],
                            isSending := False\<rparr>
                in case current of
                     None \<Rightarrow> (s2, [call])
                   | Some cs \<Rightarrow>
                       (let (s3, calls3) =
                              chatStore_fetchSessions (fetchSessions_response env) s2;
                            (call4, r4) = ChatService_getSessions (getSessions_response env)
                        in case r4 of
                             Inl e \<Rightarrow>
                               (sendMessage_catch e userMessage s3, [call] @ calls3 @ [call4])
                           | Inr updatedSessions \<Rightarrow>
                               ((case find (\<lambda>x. session_id x = session_id cs) updatedSessions of
                                   None \<Rightarrow> s3
                                 | Some updatedSession \<Rightarrow>
                                     if session_title updatedSession \<noteq> session_title cs
                                     then s3\<lparr>currentSession := Some updatedSession\<rparr>
                                     else s3),
                                [call] @ calls3 @ [call4]))))"

section \<open>Tokens: TokenApi\<close>

text \<open>\<open>TokenApi.getSummary()\<close> has no parameter and returns the response's data.\<close>

definition TokenApi_getSummary ::
  "TokenUsageSummary list outcome \<Rightarrow> http_call \<times> TokenUsageSummary list outcome" where
  "TokenApi_getSummary response = (api_call GET ''/api/tokens/summary'' NoBody, response)"

section \<open>What a call carries, and the operations of the chat store as one step function\<close>

text \<open>The answer \<open>sendMessage\<close> gets to its query, for the session the store is in.\<close>

definition query_outcome ::
  "send_env \<Rightarrow> string \<Rightarrow> string js_opt \<Rightarrow> ChatState \<Rightarrow> ChatQueryResponse outcome" where
  "query_outcome env q groupId s =
     snd (ChatService_sendMessage (messages_response env) (rag_response env)
            q (map_option session_id (currentSession s)) groupId)"

text \<open>The \<open>group_id\<close> and the two expansion flags in the body of a call, if it has them.\<close>

fun sent_group_id :: "http_call \<Rightarrow> string js_opt option" where
  "sent_group_id c =
     (case body c of
        SendMessageBodyOf b \<Rightarrow> Some (body_group_id b)
      | ChatQueryBody r \<Rightarrow> Some (group_id r)
      | _ \<Rightarrow> None)"

fun sent_flags :: "http_call \<Rightarrow> (bool option \<times> bool option) option" where
  "sent_flags c =
     (case body c of
        SendMessageBodyOf b \<Rightarrow> Some (body_use_multi_query b, body_use_step_back b)
      | ChatQueryBody r \<Rightarrow> Some (use_multi_query r, use_step_back r)
      | _ \<Rightarrow> None)"

text \<open>
  The operations of the chat store, each with what the network answers to it, and the
  state after one of them. \<open>createSession\<close> also returns the session or rethrows; only
  its state is kept here.
\<close>

datatype chat_op =
    FetchSessions "ChatSession list outcome"
  | CreateSession "ChatSession outcome" "string option"
  | SelectSession "ChatSession outcome" string
  | SendMessage send_env string "string js_opt"
  | DeleteSession "unit outcome" string
  | UpdateSessionTitle "ChatSession outcome" string string
  | SetError "string option"

fun chat_step :: "chat_op \<Rightarrow> ChatState \<Rightarrow> ChatState" where
  "chat_step (FetchSessions r) s = fst (chatStore_fetchSessions r s)"
| "chat_step (CreateSession r title) s = fst (chatStore_createSession r title s)"
| "chat_step (SelectSession r i) s = fst (chatStore_selectSession r i s)"
| "chat_step (SendMessage env q groupId) s = fst (chatStore_sendMessage env q groupId s)"
| "chat_step (DeleteSession r i) s = fst (chatStore_deleteSession r i s)"
| "chat_step (UpdateSessionTitle r i title) s = fst (chatStore_updateSessionTitle r i title s)"
| "chat_step (SetError e) s = chatStore_setError e s"

text \<open>
  The server's copy of a session's messages, for the two operations that install one
  (\<open>messages: session.messages || []\<close> after a call that resolved).
\<close>

fun server_copy :: "chat_op \<Rightarrow> ChatMessage list option" where
  "server_copy (CreateSession (Inr session) title) = Some (messages_or_empty session)"
| "server_copy (SelectSession (Inr session) i) = Some (messages_or_empty session)"
| "server_copy _ = None"

text \<open>
  The messages an operation builds itself: \<open>sendMessage\<close> builds the user message and,
  when the query resolved, the assistant message; no other operation builds any.
\<close>

fun created_messages :: "chat_op \<Rightarrow> ChatState \<Rightarrow> ChatMessage list" where
  "created_messages (SendMessage env q groupId) s =
     userMessage_of env q s #
       (case query_outcome env q groupId s of
          Inl e \<Rightarrow> []
        | Inr response \<Rightarrow> [assistantMessage_of env response s])"
| "created_messages _ s = []"

section \<open>Retrieval scoping on the backend\<close>

text \<open>
  Modelled from the spec: the HybridRetriever of section 4.3 (VectorSearch and
  KeywordSearch, scoped by user and optional group), which is backend code and not among
  the client sources. A chunk carries the owning user and the optional group of its
  document. For each planned search query, each signal ranks the chunks in scope by its
  score, best first, and returns the top \<open>K\<close>. The scores are parameters.
\<close>

record Chunk =
  chunk_id :: string
  chunk_document :: string
  chunk_owner :: string
  chunk_group :: "string option"
  chunk_text :: string

text \<open>
  Modelled from the spec: the backend reads the request's \<open>group_id\<close> as the optional
  group filter; \<open>null\<close> or a missing field is no filter.
\<close>

fun group_filter_of :: "string js_opt \<Rightarrow> string option" where
  "group_filter_of (Defined g) = Some g"
| "group_filter_of _ = None"

text \<open>
  Modelled from the spec: a chunk is in scope when it belongs to the requesting user and,
  if a group filter is set, to that group.
\<close>

definition in_scope :: "string \<Rightarrow> string option \<Rightarrow> Chunk \<Rightarrow> bool" where
  "in_scope U G c =
     (chunk_owner c = U \<and> (case G of None \<Rightarrow> True | Some g \<Rightarrow> chunk_group c = Some g))"

text \<open>Modelled from the spec: one signal's ranked candidate list, top-\<open>K\<close> bounded.\<close>

definition scoped_search ::
  "(Chunk \<Rightarrow> int) \<Rightarrow> nat \<Rightarrow> string \<Rightarrow> string option \<Rightarrow> Chunk list \<Rightarrow> Chunk list" where
  "scoped_search score K U G corpus =
     take K (rev (sort_key score (filter (in_scope U G) corpus)))"

text \<open>
  Modelled from the spec: the candidate lists of one request, the vector list and the
  keyword list of every planned search query.
\<close>

definition candidate_lists ::
  "(string \<Rightarrow> Chunk \<Rightarrow> int) \<Rightarrow> (string \<Rightarrow> Chunk \<Rightarrow> int) \<Rightarrow> nat
     \<Rightarrow> string \<Rightarrow> string option \<Rightarrow> Chunk list \<Rightarrow> string list \<Rightarrow> Chunk list list" where
  "candidate_lists vector_score keyword_score K U G corpus planned =
     concat (map (\<lambda>q. [scoped_search (vector_score q) K U G corpus,
                        scoped_search (keyword_score q) K U G corpus]) planned)"

section \<open>Concrete inputs\<close>

definition example_session :: ChatSession where
  "example_session =
     \<lparr>session_id = ''s1'', session_user_id = ''u1'', session_title = None,
      session_created_at = ''2025-01-01T00:00:00.000Z'',
      session_updated_at = ''2025-01-01T00:00:00.000Z'',
      session_messages = Some []\<rparr>"

definition example_chat :: ChatState where
  "example_chat =
     \<lparr>sessions = [example_session], currentSession = Some example_session, messages = [],
      chat_isLoading = False, isSending = False, chat_error = None\<rparr>"

definition example_reply :: SendMessageResponse where
  "example_reply =
     \<lparr>assistant_message =
        \<lparr>msg_id = ''m2'', msg_session_id = ''s1'', msg_role = MsgAssistant,
         msg_content = ''answer'', msg_created_at = ''2025-01-01T00:00:02.000Z''\<rparr>,
      reply_sources = [], reply_metadata = []\<rparr>"

text \<open>The query is answered, the first session listing is rejected, the second resolves.\<close>

definition example_env :: send_env where
  "example_env =
     \<lparr>now_user = 1000, iso_user = ''2025-01-01T00:00:01.000Z'',
      messages_response = Inr example_reply,
      rag_response = Inl (AxiosError None),
      now_assistant = 2000, iso_assistant = ''2025-01-01T00:00:02.000Z'',
      fetchSessions_response = Inl (AxiosError None),
      getSessions_response = Inr [example_session]\<rparr>"

text \<open>The query itself is rejected, with a detail.\<close>

definition rejecting_env :: send_env where
  "rejecting_env =
     example_env\<lparr>messages_response := Inl (AxiosError (Some ''Quota exceeded''))\<rparr>"

definition example_doc :: "string \<Rightarrow> Document" where
  "example_doc i =
     \<lparr>doc_id = i, doc_user_id = ''u1'', doc_filename = ''spec.pdf'', doc_file_size = 3,
      doc_mime_type = ''application/pdf'', doc_status = indexed, doc_storage_key = None,
      doc_checksum = None, doc_metadata = None,
      doc_created_at = ''2025-01-01T00:00:00.000Z'',
      doc_updated_at = ''2025-01-01T00:00:00.000Z''\<rparr>"

definition example_documents :: DocumentState where
  "example_documents =
     \<lparr>documents = [example_doc ''d1'', example_doc ''d2''],
      selectedDocument = Some (example_doc ''d1''),
      doc_isLoading = False, doc_error = None, uploadProgress = 0\<rparr>"



definition example_summary :: "string \<Rightarrow> TokenUsageSummary" where
  "example_summary p =
     \<lparr>provider = p, today_tokens = 600, today_requests = 1, month_tokens = 600,
      month_requests = 1, daily_limit = Some 1000, monthly_limit = None,
      daily_percentage = 60, monthly_percentage = 0\<rparr>"

definition example_chunk :: "string \<Rightarrow> string \<Rightarrow> string option \<Rightarrow> Chunk" where
  "example_chunk i owner g =
     \<lparr>chunk_id = i, chunk_document = ''d1'', chunk_owner = owner, chunk_group = g,
      chunk_text = ''text''\<rparr>"

definition example_corpus :: "Chunk list" where
  "example_corpus =
     [example_chunk ''c1'' ''u1'' (Some ''g1''),
      example_chunk ''c2'' ''u2'' (Some ''g1''),
      example_chunk ''c3'' ''u1'' (Some ''g2''),
      example_chunk ''c4'' ''u1'' None]"

definition example_auth :: AuthState where
  "example_auth =
     \<lparr>auth_user =
        Some \<lparr>user_id = ''u1'', user_email = ''a@b.c'', user_name = ''A'',
              user_role = RoleUser,
              user_created_at = ''2025-01-01T00:00:00.000Z'',
              user_updated_at = ''2025-01-01T00:00:00.000Z''\<rparr>,
      auth_token = Some ''jwt'', isAuthenticated = True, auth_isLoading = False,
      auth_error = None\<rparr>"

section \<open>Logout\<close>

text \<open>
  Claim C9. For every call to logout, including when the underlying API call throws, the
  credentials are always cleared: the \<open>auth_token\<close> entry is removed from localStorage
  and the auth store ends with user null, token null and isAuthenticated false. The
  rejection, if any, still reaches the caller, and the other fields of the store are
  untouched.
\<close>

theorem logout_always_clears_credentials:
  "fst (snd (authStore_logout api_logout s st)) ''auth_token'' = None
   \<and> auth_user (fst (authStore_logout api_logout s st)) = None
   \<and> auth_token (fst (authStore_logout api_logout s st)) = None
   \<and> isAuthenticated (fst (authStore_logout api_logout s st)) = False
   \<and> auth_isLoading (fst (authStore_logout api_logout s st)) = auth_isLoading s
   \<and> auth_error (fst (authStore_logout api_logout s st)) = auth_error s
   \<and> snd (snd (authStore_logout api_logout s st)) = api_logout"
  by (simp add: authStore_logout_def AuthService_logout_def removeItem_def)

text \<open>
  A logged-in store whose API logout is rejected: the token is gone from the storage and
  from the store, and the rejection is rethrown.
\<close>

theorem logout_always_clears_credentials_witness:
  "fst (snd (authStore_logout (Inl (AxiosError None)) example_auth
              [''auth_token'' \<mapsto> ''jwt''])) ''auth_token'' = None
   \<and> auth_user (fst (authStore_logout (Inl (AxiosError None)) example_auth
              [''auth_token'' \<mapsto> ''jwt''])) = None
   \<and> auth_token (fst (authStore_logout (Inl (AxiosError None)) example_auth
              [''auth_token'' \<mapsto> ''jwt''])) = None
   \<and> isAuthenticated (fst (authStore_logout (Inl (AxiosError None)) example_auth
              [''auth_token'' \<mapsto> ''jwt''])) = False
   \<and> snd (snd (authStore_logout (Inl (AxiosError None)) example_auth
              [''auth_token'' \<mapsto> ''jwt''])) = Inl (AxiosError None)"
  using logout_always_clears_credentials
          [of "Inl (AxiosError None)" example_auth "[''auth_token'' \<mapsto> ''jwt'']"]
  by simp

section \<open>Deleting a document\<close>

text \<open>
  Claim C10. For every successful \<open>deleteDocument(id)\<close> on the document store, exactly
  the documents whose id equals the argument are removed from the list and every other
  document stays, unchanged and in order; \<open>selectedDocument\<close> becomes null when it was
  the deleted document and is unchanged otherwise. On failure the list and the selection
  are unchanged, and only \<open>error\<close> and \<open>isLoading\<close> are updated.
\<close>

theorem deleteDocument_effect:
  "(response = Inr () \<longrightarrow>
      fst (documentStore_deleteDocument response i s) =
        s\<lparr>documents := filter (\<lambda>d. doc_id d \<noteq> i) (documents s),
          selectedDocument :=
            (case selectedDocument s of
               None \<Rightarrow> None
             | Some d \<Rightarrow> if doc_id d = i then None else Some d),
          doc_isLoading := False, doc_error := None\<rparr>
      \<and> (\<forall>d \<in> set (documents s).
            (d \<in> set (documents (fst (documentStore_deleteDocument response i s))))
              = (doc_id d \<noteq> i))
      \<and> set (documents (fst (documentStore_deleteDocument response i s)))
            \<subseteq> set (documents s)
      \<and> ((selectedDocument (fst (documentStore_deleteDocument response i s)) = None)
            = (selectedDocument s = None
               \<or> (\<exists>d. selectedDocument s = Some d \<and> doc_id d = i)))
      \<and> (selectedDocument (fst (documentStore_deleteDocument response i s)) \<noteq> None \<longrightarrow>
            selectedDocument (fst (documentStore_deleteDocument response i s))
              = selectedDocument s))
   \<and> (\<forall>e. response = Inl e \<longrightarrow>
         fst (documentStore_deleteDocument response i s) =
           s\<lparr>doc_error := Some (detail_or e ''Delete failed''), doc_isLoading := False\<rparr>
         \<and> documents (fst (documentStore_deleteDocument response i s)) = documents s
         \<and> selectedDocument (fst (documentStore_deleteDocument response i s))
             = selectedDocument s
         \<and> uploadProgress (fst (documentStore_deleteDocument response i s))
             = uploadProgress s)"
  by (auto simp: documentStore_deleteDocument_def DocumentService_deleteDocument_def
        DocumentApi_deleteDocument_def split: option.splits)

text \<open>
  Two documents with the first one selected: deleting the first leaves the second and
  clears the selection; a rejected delete leaves both and the selection.
\<close>

theorem deleteDocument_effect_witness:
  "documents (fst (documentStore_deleteDocument (Inr ()) ''d1'' example_documents))
     = [example_doc ''d2'']
   \<and> selectedDocument (fst (documentStore_deleteDocument (Inr ()) ''d1'' example_documents))
     = None
   \<and> documents (fst (documentStore_deleteDocument (Inl (AxiosError None)) ''d1''
        example_documents)) = [example_doc ''d1'', example_doc ''d2'']
   \<and> selectedDocument (fst (documentStore_deleteDocument (Inl (AxiosError None)) ''d1''
        example_documents)) = Some (example_doc ''d1'')
   \<and> doc_error (fst (documentStore_deleteDocument (Inl (AxiosError None)) ''d1''
        example_documents)) = Some ''Delete failed''"
  using deleteDocument_effect [of "Inr ()" "''d1''" example_documents]
    deleteDocument_effect [of "Inl (AxiosError None)" "''d1''" example_documents]
  by (simp add: example_documents_def example_doc_def detail_or_def)

section \<open>Uploading a file\<close>




section \<open>Sending a chat message\<close>

lemma fetchSessions_messages:
  "messages (fst (chatStore_fetchSessions r s)) = messages s"
  by (simp add: chatStore_fetchSessions_def ChatService_getSessions_def
      ChatApi_getSessions_def Let_def split: sum.splits)

lemma fetchSessions_isSending:
  "isSending (fst (chatStore_fetchSessions r s)) = isSending s"
  by (simp add: chatStore_fetchSessions_def ChatService_getSessions_def
      ChatApi_getSessions_def Let_def split: sum.splits)

lemma user_assistant_ids_differ:
  "msg_id (assistantMessage_of env response s) \<noteq> msg_id (userMessage_of env q s)"
  by (simp add: assistantMessage_of_def userMessage_of_def)

lemma query_outcome_split:
  "\<exists>c. ChatService_sendMessage (messages_response env) (rag_response env)
          q (map_option session_id (currentSession s)) groupId
        = (c, query_outcome env q groupId s)"
  unfolding query_outcome_def by (metis prod.collapse)

lemma sendMessage_rejected:
  assumes "trim q \<noteq> []" and "query_outcome env q groupId s = Inl e"
  shows "fst (chatStore_sendMessage env q groupId s) =
           s\<lparr>messages := filter (\<lambda>m. msg_id m \<noteq> msg_id (userMessage_of env q s)) (messages s),
             isSending := False,
             chat_error := Some (detail_or e ''Failed to send message'')\<rparr>"
proof -
  obtain c where "ChatService_sendMessage (messages_response env) (rag_response env)
            q (map_option session_id (currentSession s)) groupId = (c, Inl e)"
    using query_outcome_split[of env q s groupId] assms(2) by auto
  then show ?thesis
    using assms(1) by (simp add: chatStore_sendMessage_def sendMessage_catch_def Let_def)
qed

lemma sendMessage_answered:
  assumes "trim q \<noteq> []" and "query_outcome env q groupId s = Inr response"
  shows "messages (fst (chatStore_sendMessage env q groupId s)) =
           messages s @ [userMessage_of env q s, assistantMessage_of env response s]
         \<or> messages (fst (chatStore_sendMessage env q groupId s)) =
           filter (\<lambda>m. msg_id m \<noteq> msg_id (userMessage_of env q s)) (messages s)
             @ [assistantMessage_of env response s]"
    and "isSending (fst (chatStore_sendMessage env q groupId s)) = False"
proof -
  obtain c where c: "ChatService_sendMessage (messages_response env) (rag_response env)
            q (map_option session_id (currentSession s)) groupId = (c, Inr response)"
    using query_outcome_split[of env q s groupId] assms(2) by auto
  show "messages (fst (chatStore_sendMessage env q groupId s)) =
           messages s @ [userMessage_of env q s, assistantMessage_of env response s]
         \<or> messages (fst (chatStore_sendMessage env q groupId s)) =
           filter (\<lambda>m. msg_id m \<noteq> msg_id (userMessage_of env q s)) (messages s)
             @ [assistantMessage_of env response s]"
    using assms(1) c user_assistant_ids_differ[of env response s q]
    by (simp add: chatStore_sendMessage_def sendMessage_catch_def Let_def
        ChatService_getSessions_def ChatApi_getSessions_def case_prod_beta
        fetchSessions_messages
        split: option.splits sum.splits)
  show "isSending (fst (chatStore_sendMessage env q groupId s)) = False"
    using assms(1) c
    by (simp add: chatStore_sendMessage_def sendMessage_catch_def Let_def
        ChatService_getSessions_def ChatApi_getSessions_def case_prod_beta
        fetchSessions_isSending
        split: option.splits sum.splits)
qed


lemma trim_hi: "trim ''hi'' \<noteq> []"
  by (simp add: trim_def is_js_whitespace_def)

lemma query_outcome_rejecting:
  "query_outcome rejecting_env ''hi'' Null example_chat =
     Inl (AxiosError (Some ''Quota exceeded''))"
  by (simp add: query_outcome_def ChatService_sendMessage_def ChatApi_query_def
      ChatService_request_def rejecting_env_def example_env_def example_chat_def
      example_session_def)

text \<open>
  Claim C8. For every query string whose trimmed form is empty, the chat store's
  \<open>sendMessage\<close> returns immediately without any effect: no user message is appended,
  no request is sent to the backend, and every field of the store is unchanged.
\<close>

theorem sendMessage_blank_no_effect:
  "trim q = [] \<Longrightarrow> chatStore_sendMessage env q groupId s = (s, [])"
  by (simp add: chatStore_sendMessage_def)

theorem sendMessage_blank_no_effect_witness:
  "trim ''  '' = []
   \<and> chatStore_sendMessage example_env ''  '' Null example_chat = (example_chat, [])"
proof -
  have h: "trim ''  '' = []"
    by (simp add: trim_def is_js_whitespace_def)
  show ?thesis
    using h sendMessage_blank_no_effect [OF h, of example_env Null example_chat] by simp
qed




section \<open>What a query request carries\<close>

lemma or_null_idem: "or_null (or_null g) = or_null g"
  by (cases g) auto

lemma ChatApi_query_carries:
  "sent_group_id (fst (ChatApi_query mr rr request)) =
     Some (if truthy (chat_id request) then or_null (group_id request) else group_id request)"
  "sent_flags (fst (ChatApi_query mr rr request)) =
     Some (use_multi_query request, use_step_back request)"
  by (simp_all add: ChatApi_query_def api_call_def)

lemma sendMessage_first_call:
  "trim q \<noteq> [] \<Longrightarrow>
   take 1 (snd (chatStore_sendMessage env q groupId s)) =
     [fst (ChatService_sendMessage (messages_response env) (rag_response env)
             q (map_option session_id (currentSession s)) groupId)]"
  by (simp add: chatStore_sendMessage_def Let_def case_prod_beta
      split: sum.splits option.splits)

lemma scoped_search_in_scope:
  "c \<in> set (scoped_search score K U G corpus) \<Longrightarrow> in_scope U G c"
  unfolding scoped_search_def
  by (auto dest!: in_set_takeD)

text \<open>
  Claim C1. Every query request built by \<open>sendMessage\<close> carries the caller's group
  filter: its \<open>group_id\<close> is the selected group, or null when none is selected
  (\<open>undefined\<close>, \<open>null\<close> or the empty string of the select box's first entry), in
  the request \<open>ChatService.sendMessage\<close> builds, in the body \<open>ChatApi.query\<close> posts on
  either path, and so in the first call of the store's \<open>sendMessage\<close>. For the
  retrieval the request reaches (modelled from the spec), scoped to a user \<open>U\<close> and,
  when a group filter \<open>G\<close> is set, to \<open>G\<close>: no chunk of another user or of a group
  other than \<open>G\<close> is in any candidate list.
\<close>

theorem group_filter_carried_and_enforced:
  "group_id (ChatService_request q sessionId groupId) = or_null groupId
   \<and> sent_group_id (fst (ChatService_sendMessage mr rr q sessionId groupId))
       = Some (or_null groupId)
   \<and> (\<forall>g. groupId = Defined g \<and> g \<noteq> [] \<longrightarrow> or_null groupId = Defined g)
   \<and> (groupId = Undefined \<or> groupId = Null \<or> groupId = Defined [] \<longrightarrow>
        or_null groupId = Null)
   \<and> (trim q \<noteq> [] \<longrightarrow>
        map sent_group_id (take 1 (snd (chatStore_sendMessage env q groupId s)))
          = [Some (or_null groupId)])
   \<and> (\<forall>l \<in> set (candidate_lists vector_score keyword_score K U G corpus planned).
        \<forall>c \<in> set l.
          chunk_owner c = U \<and> (\<forall>g. G = Some g \<longrightarrow> chunk_group c = Some g))"
proof -
  have a: "sent_group_id (fst (ChatService_sendMessage mr' rr' q sid groupId))
             = Some (or_null groupId)" for mr' rr' sid
    by (simp add: ChatService_sendMessage_def ChatApi_query_carries(1)
        ChatService_request_def or_null_idem del: sent_group_id.simps)
  have b: "trim q \<noteq> [] \<longrightarrow>
        map sent_group_id (take 1 (snd (chatStore_sendMessage env q groupId s)))
          = [Some (or_null groupId)]"
    using a sendMessage_first_call [of q env groupId s]
    by (simp del: sent_group_id.simps)
  have c: "\<forall>l \<in> set (candidate_lists vector_score keyword_score K U G corpus planned).
        \<forall>c \<in> set l.
          chunk_owner c = U \<and> (\<forall>g. G = Some g \<longrightarrow> chunk_group c = Some g)"
    by (auto simp: candidate_lists_def in_scope_def dest!: scoped_search_in_scope)
  show ?thesis
    using a b c by (auto simp: ChatService_request_def)
qed

text \<open>
  The group the request carries is the retrieval's filter; of four chunks, one is the
  user's and in that group, and it alone is a candidate.
\<close>

theorem group_filter_carried_and_enforced_witness:
  "sent_group_id (fst (ChatService_sendMessage (Inr example_reply) (Inl (AxiosError None))
                         ''hi'' (Some ''s1'') (Defined ''g1'')))
     = Some (Defined ''g1'')
   \<and> trim ''hi'' \<noteq> []
   \<and> map sent_group_id
        (take 1 (snd (chatStore_sendMessage example_env ''hi'' (Defined ''g1'') example_chat)))
     = [Some (Defined ''g1'')]
   \<and> candidate_lists (\<lambda>q c. 0) (\<lambda>q c. 0) 10 ''u1''
        (group_filter_of (or_null (Defined ''g1''))) example_corpus [''hi'']
     = [[example_chunk ''c1'' ''u1'' (Some ''g1'')],
        [example_chunk ''c1'' ''u1'' (Some ''g1'')]]"
proof -
  have lists: "candidate_lists (\<lambda>q c. 0) (\<lambda>q c. 0) 10 ''u1''
        (group_filter_of (or_null (Defined ''g1''))) example_corpus [''hi'']
     = [[example_chunk ''c1'' ''u1'' (Some ''g1'')],
        [example_chunk ''c1'' ''u1'' (Some ''g1'')]]"
    by (simp add: candidate_lists_def scoped_search_def in_scope_def example_corpus_def
        example_chunk_def)
  show ?thesis
    using trim_hi lists
      group_filter_carried_and_enforced
        [of "''hi''" "Some ''s1''" "Defined ''g1''" "Inr example_reply"
            "Inl (AxiosError None)" example_env example_chat
            "\<lambda>q c. 0" "\<lambda>q c. 0" 10 "''u1''"
            "group_filter_of (or_null (Defined ''g1''))" example_corpus "[''hi'']"]
    by (simp del: sent_group_id.simps)
qed

text \<open>
  Claim C2, as the code has it. The two expansion flags are optional fields of
  \<open>ChatQueryRequest\<close>, and \<open>ChatApi.query\<close> forwards the flags of the request it is
  given. The operation exposed to the presentation layer, \<open>ChatService.sendMessage\<close>
  (reached through the store's \<open>sendMessage\<close>), has no parameter for them: every
  request it sends carries \<open>use_multi_query = true\<close> and \<open>use_step_back = false\<close>.
\<close>

theorem expansion_flags_fixed_by_service:
  "sent_flags (fst (ChatApi_query mr rr request))
     = Some (use_multi_query request, use_step_back request)
   \<and> use_multi_query (ChatService_request q sessionId groupId) = Some True
   \<and> use_step_back (ChatService_request q sessionId groupId) = Some False
   \<and> sent_flags (fst (ChatService_sendMessage mr rr q sessionId groupId))
       = Some (Some True, Some False)
   \<and> (trim q \<noteq> [] \<longrightarrow>
        map sent_flags (take 1 (snd (chatStore_sendMessage env q groupId s)))
          = [Some (Some True, Some False)])"
proof -
  have a: "sent_flags (fst (ChatService_sendMessage mr' rr' q sid groupId))
       = Some (Some True, Some False)" for mr' rr' sid
    by (simp add: ChatService_sendMessage_def ChatApi_query_carries(2)
        ChatService_request_def del: sent_flags.simps)
  show ?thesis
    using a sendMessage_first_call [of q env groupId s]
    by (simp add: ChatApi_query_carries(2) ChatService_request_def
        del: sent_flags.simps)
qed

theorem expansion_flags_fixed_by_service_witness:
  "trim ''hi'' \<noteq> []
   \<and> sent_flags (fst (ChatService_sendMessage (Inr example_reply) (Inl (AxiosError None))
                        ''hi'' (Some ''s1'') Null))
     = Some (Some True, Some False)
   \<and> map sent_flags
        (take 1 (snd (chatStore_sendMessage example_env ''hi'' Null example_chat)))
     = [Some (Some True, Some False)]"
  using trim_hi
    expansion_flags_fixed_by_service
      [of "Inr example_reply" "Inl (AxiosError None)" "ChatService_request ''hi'' (Some ''s1'') Null"
          "''hi''" "Some ''s1''" Null example_env example_chat]
  by (simp del: sent_flags.simps)

text \<open>
  Against claim C2 as stated (the flags are determined by the caller): no arguments of
  \<open>ChatService.sendMessage\<close> give a request with step-back on or multi-query off.
\<close>

theorem expansion_flags_counterexample:
  "\<not> (\<exists>q sessionId groupId.
        use_step_back (ChatService_request q sessionId groupId) = Some True
        \<or> use_multi_query (ChatService_request q sessionId groupId) = Some False)"
  by (simp add: ChatService_request_def)

section \<open>The usage summary\<close>

text \<open>
  Claim C5, as the code has it. The usage-summary operation, \<open>TokenApi.getSummary\<close>,
  takes no provider argument: it GETs \<open>/api/tokens/summary\<close> with no body and returns
  the backend's answer as it is, the list of the summaries of all providers.
\<close>

theorem getSummary_all_providers:
  "fst (TokenApi_getSummary response) = api_call GET ''/api/tokens/summary'' NoBody
   \<and> url (fst (TokenApi_getSummary response)) = ''/api/tokens/summary''
   \<and> body (fst (TokenApi_getSummary response)) = NoBody
   \<and> snd (TokenApi_getSummary response) = response"
  by (simp add: TokenApi_getSummary_def api_call_def)

theorem getSummary_all_providers_witness:
  "snd (TokenApi_getSummary (Inr [example_summary ''groq'', example_summary ''tavily'']))
     = Inr [example_summary ''groq'', example_summary ''tavily'']
   \<and> url (fst (TokenApi_getSummary (Inr [example_summary ''groq'', example_summary ''tavily''])))
     = ''/api/tokens/summary''"
  using getSummary_all_providers
          [of "Inr [example_summary ''groq'', example_summary ''tavily'']"]
  by (simp add: api_call_def)

text \<open>
  Against claim C5 as stated (the operation takes a provider and returns that provider's
  summary): the request names no provider, and with two providers on the backend the
  result holds the summaries of both.
\<close>

theorem getSummary_counterexample:
  "url (fst (TokenApi_getSummary
               (Inr [example_summary ''groq'', example_summary ''tavily''])))
     = ''/api/tokens/summary''
   \<and> map_sum id (map provider)
        (snd (TokenApi_getSummary
                (Inr [example_summary ''groq'', example_summary ''tavily''])))
     = Inr [''groq'', ''tavily'']"
  by (simp add: TokenApi_getSummary_def api_call_def example_summary_def)

section \<open>Chat messages are never edited\<close>

lemma sendMessage_blank:
  "trim q = [] \<Longrightarrow> chatStore_sendMessage env q groupId s = (s, [])"
  by (simp add: chatStore_sendMessage_def)

lemma createSession_messages:
  "messages (fst (chatStore_createSession r title s)) =
     (case r of Inl e \<Rightarrow> messages s | Inr session \<Rightarrow> messages_or_empty session)"
  by (simp add: chatStore_createSession_def ChatService_createSession_def
      ChatApi_createSession_def Let_def split: sum.splits)

lemma selectSession_messages:
  "messages (fst (chatStore_selectSession r i s)) =
     (case r of Inl e \<Rightarrow> messages s | Inr session \<Rightarrow> messages_or_empty session)"
  by (simp add: chatStore_selectSession_def ChatService_getSession_def
      ChatApi_getSession_def Let_def split: sum.splits)

lemma deleteSession_messages:
  "messages (fst (chatStore_deleteSession r i s)) = messages s
   \<or> messages (fst (chatStore_deleteSession r i s)) = []"
  by (simp add: chatStore_deleteSession_def ChatService_deleteSession_def
      ChatApi_deleteSession_def Let_def split: sum.splits option.splits)

lemma updateSessionTitle_messages:
  "messages (fst (chatStore_updateSessionTitle r i title s)) = messages s"
  by (simp add: chatStore_updateSessionTitle_def ChatService_updateSessionTitle_def
      ChatApi_updateSessionTitle_def Let_def split: sum.splits)

lemma sendMessage_messages:
  "\<exists>kept added.
     messages (fst (chatStore_sendMessage env q groupId s)) = kept @ added
     \<and> subseq kept (messages s)
     \<and> subseq added (created_messages (SendMessage env q groupId) s)"
proof (cases "trim q = []")
  case True
  then have "messages (fst (chatStore_sendMessage env q groupId s)) = messages s @ []"
    by (simp add: sendMessage_blank)
  then show ?thesis
    by (metis subseq_order.order_refl list_emb_Nil)
next
  case nonblank: False
  show ?thesis
  proof (cases "query_outcome env q groupId s")
    case (Inl e)
    have "messages (fst (chatStore_sendMessage env q groupId s)) =
            filter (\<lambda>m. msg_id m \<noteq> msg_id (userMessage_of env q s)) (messages s) @ []"
      using sendMessage_rejected[OF nonblank Inl] by simp
    moreover have "subseq (filter (\<lambda>m. msg_id m \<noteq> msg_id (userMessage_of env q s))
                     (messages s)) (messages s)"
      by simp
    ultimately show ?thesis
      by (metis list_emb_Nil)
  next
    case (Inr response)
    let ?u = "userMessage_of env q s" and ?a = "assistantMessage_of env response s"
    have created: "created_messages (SendMessage env q groupId) s = [?u, ?a]"
      using Inr by simp
    consider
      (kept) "messages (fst (chatStore_sendMessage env q groupId s)) = messages s @ [?u, ?a]"
    | (dropped) "messages (fst (chatStore_sendMessage env q groupId s)) =
           filter (\<lambda>m. msg_id m \<noteq> msg_id ?u) (messages s) @ [?a]"
      using sendMessage_answered(1)[OF nonblank Inr] by blast
    then show ?thesis
    proof cases
      case kept
      have "subseq (messages s) (messages s)" and "subseq [?u, ?a] [?u, ?a]"
        by simp_all
      with kept created show ?thesis by metis
    next
      case dropped
      have "subseq (filter (\<lambda>m. msg_id m \<noteq> msg_id ?u) (messages s)) (messages s)"
        and "subseq [?a] [?u, ?a]"
        by simp_all
      with dropped created show ?thesis by metis
    qed
  qed
qed

lemma unchanged_is_kept:
  "messages s' = messages s \<Longrightarrow>
   \<exists>kept added. messages s' = kept @ added \<and> subseq kept (messages s) \<and> subseq added []"
  by (rule exI[of _ "messages s"], rule exI[of _ "[]"]) simp

lemma emptied_is_kept:
  "messages s' = [] \<Longrightarrow>
   \<exists>kept added. messages s' = kept @ added \<and> subseq kept (messages s) \<and> subseq added []"
  by (rule exI[of _ "[]"], rule exI[of _ "[]"]) simp

text \<open>
  Claim C7. Chat messages are immutable once created: every chat-store operation either
  replaces the whole list with the server's copy of a session, or leaves a list made of
  messages of the old list, unchanged and in their order (some may have been removed),
  followed by messages this operation created (\<open>sendMessage\<close>'s user message and
  assistant message). So the id, role, content and creation time of every message that
  remains are preserved: no operation edits a message in place.
\<close>

theorem chat_messages_never_edited:
  "case server_copy op of
     Some copy \<Rightarrow> messages (chat_step op s) = copy
   | None \<Rightarrow>
       (\<exists>kept added.
          messages (chat_step op s) = kept @ added
          \<and> subseq kept (messages s)
          \<and> subseq added (created_messages op s))"
proof (cases op)
  case (FetchSessions r)
  then show ?thesis
    using unchanged_is_kept[OF fetchSessions_messages[of r s]] by simp
next
  case (CreateSession r title)
  show ?thesis
  proof (cases r)
    case (Inl e)
    then have "messages (fst (chatStore_createSession r title s)) = messages s"
      by (simp add: createSession_messages)
    from unchanged_is_kept[OF this] show ?thesis
      using CreateSession Inl by simp
  next
    case (Inr session)
    then show ?thesis
      using CreateSession by (simp add: createSession_messages)
  qed
next
  case (SelectSession r i)
  show ?thesis
  proof (cases r)
    case (Inl e)
    then have "messages (fst (chatStore_selectSession r i s)) = messages s"
      by (simp add: selectSession_messages)
    from unchanged_is_kept[OF this] show ?thesis
      using SelectSession Inl by simp
  next
    case (Inr session)
    then show ?thesis
      using SelectSession by (simp add: selectSession_messages)
  qed
next
  case (SendMessage env q groupId)
  then show ?thesis
    using sendMessage_messages[of env q groupId s] by (simp del: created_messages.simps)
next
  case (DeleteSession r i)
  then show ?thesis
    using deleteSession_messages[of r i s]
      unchanged_is_kept[of "fst (chatStore_deleteSession r i s)" s]
      emptied_is_kept[of "fst (chatStore_deleteSession r i s)" s]
    by auto
next
  case (UpdateSessionTitle r i title)
  then show ?thesis
    using unchanged_is_kept[OF updateSessionTitle_messages[of r i title s]] by simp
next
  case (SetError e)
  then show ?thesis
    using unchanged_is_kept[of "chatStore_setError e s" s]
    by (simp add: chatStore_setError_def)
qed

text \<open>
  Selecting a session installs the server's copy; a rejected \<open>sendMessage\<close> leaves a
  sublist of the old list.
\<close>

theorem chat_messages_never_edited_witness:
  "server_copy (SelectSession (Inr example_session) ''s1'') = Some []
   \<and> messages (chat_step (SelectSession (Inr example_session) ''s1'') example_chat) = []
   \<and> server_copy (SendMessage rejecting_env ''hi'' Null) = None
   \<and> (\<exists>kept added.
         messages (chat_step (SendMessage rejecting_env ''hi'' Null) example_chat)
           = kept @ added
         \<and> subseq kept (messages example_chat)
         \<and> subseq added [userMessage_of rejecting_env ''hi'' example_chat])"
  using chat_messages_never_edited [of "SelectSession (Inr example_session) ''s1''" example_chat]
    chat_messages_never_edited [of "SendMessage rejecting_env ''hi'' Null" example_chat]
  by (simp add: messages_or_empty_def example_session_def query_outcome_rejecting
      del: chat_step.simps)

end
